theory Spec2Isabelle
  imports Main "HOL-Library.Word" "HOL-Library.Multiset"
begin

unbundle bit_operations_syntax

section \<open>The runtime-spec data the profile is built from\<close>

text \<open>
  The types of \<^verbatim>\<open>github.com/opencontainers/runtime-spec/specs-go\<close> that
  \<^verbatim>\<open>contrib/seccomp/seccomp_default.go\<close> builds and reads. A Go struct is a
  record, a Go string-constant enumeration is a datatype, a \<^verbatim>\<open>uint64\<close> is a
  64-bit word, a \<^verbatim>\<open>uint\<close> is a natural number, a pointer is an option
  (\<open>None\<close> is \<^verbatim>\<open>nil\<close>), a slice is a list.
\<close>

datatype Arch =
    ArchX86 | ArchX86_64 | ArchX32
  | ArchARM | ArchAARCH64
  | ArchMIPS | ArchMIPS64 | ArchMIPS64N32
  | ArchMIPSEL | ArchMIPSEL64 | ArchMIPSEL64N32
  | ArchPPC | ArchPPC64 | ArchPPC64LE
  | ArchS390 | ArchS390X
  | ArchPARISC | ArchPARISC64
  | ArchRISCV64

datatype LinuxSeccompAction =
    ActKill | ActKillProcess | ActKillThread | ActTrap | ActErrno
  | ActTrace | ActAllow | ActLog | ActNotify

datatype LinuxSeccompOperator =
    OpNotEqual | OpLessThan | OpLessEqual | OpEqualTo
  | OpGreaterEqual | OpGreaterThan | OpMaskedEqual

record LinuxSeccompArg =
  Index :: nat
  Value :: "64 word"
  ValueTwo :: "64 word"
  Op :: LinuxSeccompOperator

record LinuxSyscall =
  Names :: "string list"
  Action :: LinuxSeccompAction
  ErrnoRet :: "nat option"
  Args :: "LinuxSeccompArg list"

record LinuxSeccomp =
  DefaultAction :: LinuxSeccompAction
  Architectures :: "Arch list"
  Syscalls :: "LinuxSyscall list"

text \<open>
  The part of \<^verbatim>\<open>runtimespec.Spec\<close> that \<^verbatim>\<open>DefaultProfile\<close> reads:
  \<^verbatim>\<open>sp.Process.Capabilities.Bounding\<close>, through three pointers.
\<close>

record LinuxCapabilities =
  Bounding :: "string list"
  Effective :: "string list"
  Inheritable :: "string list"
  Permitted :: "string list"
  Ambient :: "string list"

record Process =
  Capabilities :: "LinuxCapabilities option"

record Spec =
  Process :: "Process option"

text \<open>Dereferencing a nil pointer panics; the panic is a value of the model.\<close>

datatype panic = NilPointerDereference

text \<open>
  The kernel-version oracle \<^verbatim>\<open>kernelversion.GreaterEqualThan\<close> lives in another
  package; the profile takes it as a parameter. It returns a boolean and a Go
  \<^verbatim>\<open>error\<close>, where \<open>None\<close> is the nil error.
\<close>

record KernelVersion =
  Kernel :: nat
  Major :: nat

type_synonym go_error = string

type_synonym version_oracle = "KernelVersion \<Rightarrow> bool \<times> go_error option"

section \<open>Constants of golang.org/x/sys/unix\<close>

definition AF_VSOCK :: "64 word" where
  "AF_VSOCK = 0x28"

definition CLONE_NEWNS :: "64 word" where
  "CLONE_NEWNS = 0x20000"

definition CLONE_NEWCGROUP :: "64 word" where
  "CLONE_NEWCGROUP = 0x2000000"

definition CLONE_NEWUTS :: "64 word" where
  "CLONE_NEWUTS = 0x4000000"

definition CLONE_NEWIPC :: "64 word" where
  "CLONE_NEWIPC = 0x8000000"

definition CLONE_NEWUSER :: "64 word" where
  "CLONE_NEWUSER = 0x10000000"

definition CLONE_NEWPID :: "64 word" where
  "CLONE_NEWPID = 0x20000000"

definition CLONE_NEWNET :: "64 word" where
  "CLONE_NEWNET = 0x40000000"

text \<open>
  \<^verbatim>\<open>unix.ENOSYS\<close> is an errno of the target: 89 on the MIPS ports, 90 on
  sparc64 and 38 on every other Linux port of Go.
\<close>

definition ENOSYS :: "string \<Rightarrow> nat" where
  "ENOSYS goarch =
     (if goarch \<in> set [''mips'', ''mipsle'', ''mips64'', ''mips64le''] then 0x59
      else if goarch = ''sparc64'' then 0x5a
      else 0x26)"

section \<open>The architecture table\<close>

text \<open>\<^verbatim>\<open>arches()\<close>, lines 31-53, with \<^verbatim>\<open>runtime.GOARCH\<close> as its argument.\<close>

definition arches :: "string \<Rightarrow> Arch list" where
  "arches GOARCH =
     (if GOARCH = ''amd64'' then [ArchX86_64, ArchX86, ArchX32]
      else if GOARCH = ''arm64'' then [ArchARM, ArchAARCH64]
      else if GOARCH = ''mips64'' then [ArchMIPS, ArchMIPS64, ArchMIPS64N32]
      else if GOARCH = ''mips64n32'' then [ArchMIPS, ArchMIPS64, ArchMIPS64N32]
      else if GOARCH = ''mipsel64'' then [ArchMIPSEL, ArchMIPSEL64, ArchMIPSEL64N32]
      else if GOARCH = ''mipsel64n32'' then [ArchMIPSEL, ArchMIPSEL64, ArchMIPSEL64N32]
      else if GOARCH = ''s390x'' then [ArchS390, ArchS390X]
      else if GOARCH = ''riscv64'' then [ArchRISCV64]
      else [])"

section \<open>DefaultProfile\<close>

text \<open>The names of the first rule of the \<^verbatim>\<open>syscalls\<close> literal, lines 60-410.\<close>

definition baseline_names :: "string list" where
  "baseline_names = [
    ''accept'', ''accept4'', ''access'', ''adjtimex'', ''alarm'', ''bind'', ''brk'', ''capget'',
    ''capset'', ''chdir'', ''chmod'', ''chown'', ''chown32'', ''clock_adjtime'',
    ''clock_adjtime64'', ''clock_getres'', ''clock_getres_time64'', ''clock_gettime'',
    ''clock_gettime64'', ''clock_nanosleep'', ''clock_nanosleep_time64'', ''close'',
    ''close_range'', ''connect'', ''copy_file_range'', ''creat'', ''dup'', ''dup2'', ''dup3'',
    ''epoll_create'', ''epoll_create1'', ''epoll_ctl'', ''epoll_ctl_old'', ''epoll_pwait'',
    ''epoll_pwait2'', ''epoll_wait'', ''epoll_wait_old'', ''eventfd'', ''eventfd2'', ''execve'',
    ''execveat'', ''exit'', ''exit_group'', ''faccessat'', ''faccessat2'', ''fadvise64'',
    ''fadvise64_64'', ''fallocate'', ''fanotify_mark'', ''fchdir'', ''fchmod'', ''fchmodat'',
    ''fchown'', ''fchown32'', ''fchownat'', ''fcntl'', ''fcntl64'', ''fdatasync'',
    ''fgetxattr'', ''flistxattr'', ''flock'', ''fork'', ''fremovexattr'', ''fsetxattr'',
    ''fstat'', ''fstat64'', ''fstatat64'', ''fstatfs'', ''fstatfs64'', ''fsync'', ''ftruncate'',
    ''ftruncate64'', ''futex'', ''futex_time64'', ''futex_waitv'', ''futimesat'', ''getcpu'',
    ''getcwd'', ''getdents'', ''getdents64'', ''getegid'', ''getegid32'', ''geteuid'',
    ''geteuid32'', ''getgid'', ''getgid32'', ''getgroups'', ''getgroups32'', ''getitimer'',
    ''getpeername'', ''getpgid'', ''getpgrp'', ''getpid'', ''getppid'', ''getpriority'',
    ''getrandom'', ''getresgid'', ''getresgid32'', ''getresuid'', ''getresuid32'',
    ''getrlimit'', ''get_robust_list'', ''getrusage'', ''getsid'', ''getsockname'',
    ''getsockopt'', ''get_thread_area'', ''gettid'', ''gettimeofday'', ''getuid'', ''getuid32'',
    ''getxattr'', ''inotify_add_watch'', ''inotify_init'', ''inotify_init1'',
    ''inotify_rm_watch'', ''io_cancel'', ''ioctl'', ''io_destroy'', ''io_getevents'',
    ''io_pgetevents'', ''io_pgetevents_time64'', ''ioprio_get'', ''ioprio_set'', ''io_setup'',
    ''io_submit'', ''io_uring_enter'', ''io_uring_register'', ''io_uring_setup'', ''ipc'',
    ''kill'', ''landlock_add_rule'', ''landlock_create_ruleset'', ''landlock_restrict_self'',
    ''lchown'', ''lchown32'', ''lgetxattr'', ''link'', ''linkat'', ''listen'', ''listxattr'',
    ''llistxattr'', ''_llseek'', ''lremovexattr'', ''lseek'', ''lsetxattr'', ''lstat'',
    ''lstat64'', ''madvise'', ''membarrier'', ''memfd_create'', ''memfd_secret'', ''mincore'',
    ''mkdir'', ''mkdirat'', ''mknod'', ''mknodat'', ''mlock'', ''mlock2'', ''mlockall'',
    ''mmap'', ''mmap2'', ''mprotect'', ''mq_getsetattr'', ''mq_notify'', ''mq_open'',
    ''mq_timedreceive'', ''mq_timedreceive_time64'', ''mq_timedsend'', ''mq_timedsend_time64'',
    ''mq_unlink'', ''mremap'', ''msgctl'', ''msgget'', ''msgrcv'', ''msgsnd'', ''msync'',
    ''munlock'', ''munlockall'', ''munmap'', ''name_to_handle_at'', ''nanosleep'',
    ''newfstatat'', ''_newselect'', ''open'', ''openat'', ''openat2'', ''pause'',
    ''pidfd_open'', ''pidfd_send_signal'', ''pipe'', ''pipe2'', ''pkey_alloc'', ''pkey_free'',
    ''pkey_mprotect'', ''poll'', ''ppoll'', ''ppoll_time64'', ''prctl'', ''pread64'',
    ''preadv'', ''preadv2'', ''prlimit64'', ''process_mrelease'', ''pselect6'',
    ''pselect6_time64'', ''pwrite64'', ''pwritev'', ''pwritev2'', ''read'', ''readahead'',
    ''readlink'', ''readlinkat'', ''readv'', ''recv'', ''recvfrom'', ''recvmmsg'',
    ''recvmmsg_time64'', ''recvmsg'', ''remap_file_pages'', ''removexattr'', ''rename'',
    ''renameat'', ''renameat2'', ''restart_syscall'', ''rmdir'', ''rseq'', ''rt_sigaction'',
    ''rt_sigpending'', ''rt_sigprocmask'', ''rt_sigqueueinfo'', ''rt_sigreturn'',
    ''rt_sigsuspend'', ''rt_sigtimedwait'', ''rt_sigtimedwait_time64'', ''rt_tgsigqueueinfo'',
    ''sched_getaffinity'', ''sched_getattr'', ''sched_getparam'', ''sched_get_priority_max'',
    ''sched_get_priority_min'', ''sched_getscheduler'', ''sched_rr_get_interval'',
    ''sched_rr_get_interval_time64'', ''sched_setaffinity'', ''sched_setattr'',
    ''sched_setparam'', ''sched_setscheduler'', ''sched_yield'', ''seccomp'', ''select'',
    ''semctl'', ''semget'', ''semop'', ''semtimedop'', ''semtimedop_time64'', ''send'',
    ''sendfile'', ''sendfile64'', ''sendmmsg'', ''sendmsg'', ''sendto'', ''setfsgid'',
    ''setfsgid32'', ''setfsuid'', ''setfsuid32'', ''setgid'', ''setgid32'', ''setgroups'',
    ''setgroups32'', ''setitimer'', ''setpgid'', ''setpriority'', ''setregid'', ''setregid32'',
    ''setresgid'', ''setresgid32'', ''setresuid'', ''setresuid32'', ''setreuid'',
    ''setreuid32'', ''setrlimit'', ''set_robust_list'', ''setsid'', ''setsockopt'',
    ''set_thread_area'', ''set_tid_address'', ''setuid'', ''setuid32'', ''setxattr'', ''shmat'',
    ''shmctl'', ''shmdt'', ''shmget'', ''shutdown'', ''sigaltstack'', ''signalfd'',
    ''signalfd4'', ''sigprocmask'', ''sigreturn'', ''socketcall'', ''socketpair'', ''splice'',
    ''stat'', ''stat64'', ''statfs'', ''statfs64'', ''statx'', ''symlink'', ''symlinkat'',
    ''sync'', ''sync_file_range'', ''syncfs'', ''sysinfo'', ''tee'', ''tgkill'', ''time'',
    ''timer_create'', ''timer_delete'', ''timer_getoverrun'', ''timer_gettime'',
    ''timer_gettime64'', ''timer_settime'', ''timer_settime64'', ''timerfd_create'',
    ''timerfd_gettime'', ''timerfd_gettime64'', ''timerfd_settime'', ''timerfd_settime64'',
    ''times'', ''tkill'', ''truncate'', ''truncate64'', ''ugetrlimit'', ''umask'', ''uname'',
    ''unlink'', ''unlinkat'', ''utime'', ''utimensat'', ''utimensat_time64'', ''utimes'',
    ''vfork'', ''vmsplice'', ''wait4'', ''waitid'', ''waitpid'', ''write'', ''writev''
   ]"

text \<open>
  The shape every unconditional rule of the source has: \<^verbatim>\<open>Action: ActAllow\<close>,
  \<^verbatim>\<open>Args: []LinuxSeccompArg{}\<close>, no \<^verbatim>\<open>ErrnoRet\<close>.
\<close>

definition allow_rule :: "string list \<Rightarrow> LinuxSyscall" where
  "allow_rule names = \<lparr>Names = names, Action = ActAllow, ErrnoRet = None, Args = []\<rparr>"

text \<open>The \<^verbatim>\<open>syscalls\<close> literal, lines 58-480. A field a Go literal leaves out is zero.\<close>

definition syscalls :: "LinuxSyscall list" where
  "syscalls = [
     allow_rule baseline_names,
     \<lparr>Names = [''socket''], Action = ActAllow, ErrnoRet = None,
      Args = [\<lparr>Index = 0, Value = AF_VSOCK, ValueTwo = 0, Op = OpNotEqual\<rparr>]\<rparr>,
     \<lparr>Names = [''personality''], Action = ActAllow, ErrnoRet = None,
      Args = [\<lparr>Index = 0, Value = 0x0, ValueTwo = 0, Op = OpEqualTo\<rparr>]\<rparr>,
     \<lparr>Names = [''personality''], Action = ActAllow, ErrnoRet = None,
      Args = [\<lparr>Index = 0, Value = 0x0008, ValueTwo = 0, Op = OpEqualTo\<rparr>]\<rparr>,
     \<lparr>Names = [''personality''], Action = ActAllow, ErrnoRet = None,
      Args = [\<lparr>Index = 0, Value = 0x20000, ValueTwo = 0, Op = OpEqualTo\<rparr>]\<rparr>,
     \<lparr>Names = [''personality''], Action = ActAllow, ErrnoRet = None,
      Args = [\<lparr>Index = 0, Value = 0x20008, ValueTwo = 0, Op = OpEqualTo\<rparr>]\<rparr>,
     \<lparr>Names = [''personality''], Action = ActAllow, ErrnoRet = None,
      Args = [\<lparr>Index = 0, Value = 0xffffffff, ValueTwo = 0, Op = OpEqualTo\<rparr>]\<rparr>
   ]"

text \<open>\<^verbatim>\<open>s.Syscalls = append(s.Syscalls, r)\<close>.\<close>

definition append_syscall :: "LinuxSeccomp \<Rightarrow> LinuxSyscall \<Rightarrow> LinuxSeccomp" where
  "append_syscall s r = s\<lparr>Syscalls := Syscalls s @ [r]\<rparr>"

text \<open>Lines 488-502: the group gated by the kernel version.\<close>

definition include_by_kernel_version :: "version_oracle \<Rightarrow> LinuxSeccomp \<Rightarrow> LinuxSeccomp" where
  "include_by_kernel_version GreaterEqualThan s =
     (case GreaterEqualThan \<lparr>Kernel = 4, Major = 8\<rparr> of
        (ok, err) \<Rightarrow>
          if err = None then
            (if ok then
               append_syscall s
                 (allow_rule [''process_vm_readv'', ''process_vm_writev'', ''ptrace''])
             else s)
          else s)"

text \<open>Lines 504-563: the switch on \<^verbatim>\<open>runtime.GOARCH\<close>; no default case.\<close>

definition include_by_arch :: "string \<Rightarrow> LinuxSeccomp \<Rightarrow> LinuxSeccomp" where
  "include_by_arch GOARCH s =
     (if GOARCH = ''ppc64le'' then
        append_syscall s (allow_rule [''sync_file_range2'', ''swapcontext''])
      else if GOARCH = ''arm'' \<or> GOARCH = ''arm64'' then
        append_syscall s
          (allow_rule [''arm_fadvise64_64'', ''arm_sync_file_range'', ''sync_file_range2'',
                       ''breakpoint'', ''cacheflush'', ''set_tls''])
      else if GOARCH = ''amd64'' then
        append_syscall s (allow_rule [''arch_prctl'', ''modify_ldt''])
      else if GOARCH = ''386'' then
        append_syscall s (allow_rule [''modify_ldt''])
      else if GOARCH = ''s390'' \<or> GOARCH = ''s390x'' then
        append_syscall s
          (allow_rule [''s390_pci_mmio_read'', ''s390_pci_mmio_write'', ''s390_runtime_instr''])
      else if GOARCH = ''riscv64'' then
        append_syscall s (allow_rule [''riscv_flush_icache''])
      else s)"

text \<open>
  Lines 567-700: the body of the loop over the bounding set, one switch on the token.
  The state is the flag \<^verbatim>\<open>admin\<close> and the profile \<^verbatim>\<open>s\<close>.
\<close>

definition capability_case :: "string \<Rightarrow> bool \<times> LinuxSeccomp \<Rightarrow> bool \<times> LinuxSeccomp" where
  "capability_case c st =
     (case st of (admin, s) \<Rightarrow>
        if c = ''CAP_DAC_READ_SEARCH'' then
          (admin, append_syscall s (allow_rule [''open_by_handle_at'']))
        else if c = ''CAP_SYS_ADMIN'' then
          (True, append_syscall s
             (allow_rule [''bpf'', ''clone'', ''clone3'', ''fanotify_init'', ''fsconfig'',
                          ''fsmount'', ''fsopen'', ''fspick'', ''lookup_dcookie'', ''mount'',
                          ''mount_setattr'', ''move_mount'', ''open_tree'', ''perf_event_open'',
                          ''quotactl'', ''quotactl_fd'', ''setdomainname'', ''sethostname'',
                          ''setns'', ''syslog'', ''umount'', ''umount2'', ''unshare'']))
        else if c = ''CAP_SYS_BOOT'' then
          (admin, append_syscall s (allow_rule [''reboot'']))
        else if c = ''CAP_SYS_CHROOT'' then
          (admin, append_syscall s (allow_rule [''chroot'']))
        else if c = ''CAP_SYS_MODULE'' then
          (admin, append_syscall s
             (allow_rule [''delete_module'', ''init_module'', ''finit_module'']))
        else if c = ''CAP_SYS_PACCT'' then
          (admin, append_syscall s (allow_rule [''acct'']))
        else if c = ''CAP_SYS_PTRACE'' then
          (admin, append_syscall s
             (allow_rule [''kcmp'', ''pidfd_getfd'', ''process_madvise'', ''process_vm_readv'',
                          ''process_vm_writev'', ''ptrace'']))
        else if c = ''CAP_SYS_RAWIO'' then
          (admin, append_syscall s (allow_rule [''iopl'', ''ioperm'']))
        else if c = ''CAP_SYS_TIME'' then
          (admin, append_syscall s
             (allow_rule [''settimeofday'', ''stime'', ''clock_settime'', ''clock_settime64'']))
        else if c = ''CAP_SYS_TTY_CONFIG'' then
          (admin, append_syscall s (allow_rule [''vhangup'']))
        else if c = ''CAP_SYS_NICE'' then
          (admin, append_syscall s
             (allow_rule [''get_mempolicy'', ''mbind'', ''set_mempolicy'']))
        else if c = ''CAP_SYSLOG'' then
          (admin, append_syscall s (allow_rule [''syslog'']))
        else if c = ''CAP_BPF'' then
          (admin, append_syscall s (allow_rule [''bpf'']))
        else if c = ''CAP_PERFMON'' then
          (admin, append_syscall s (allow_rule [''perf_event_open'']))
        else (admin, s))"

text \<open>Line 566: \<^verbatim>\<open>for _, c := range Bounding\<close>, in the order of the slice.\<close>

fun capability_loop :: "string list \<Rightarrow> bool \<times> LinuxSeccomp \<Rightarrow> bool \<times> LinuxSeccomp" where
  "capability_loop [] st = st"
| "capability_loop (c # cs) st = capability_loop cs (capability_case c st)"

text \<open>Lines 703-745: the clone and clone3 rules added when \<^verbatim>\<open>admin\<close> is false.\<close>

definition clone_restrictions :: "string \<Rightarrow> nat \<Rightarrow> bool \<Rightarrow> LinuxSeccomp \<Rightarrow> LinuxSeccomp" where
  "clone_restrictions GOARCH nosys admin s =
     (if \<not> admin then
        (let s1 =
           (if GOARCH = ''s390'' \<or> GOARCH = ''s390x'' then
              append_syscall s
                \<lparr>Names = [''clone''], Action = ActAllow, ErrnoRet = None,
                 Args = [\<lparr>Index = 1,
                          Value = CLONE_NEWNS OR CLONE_NEWUTS OR CLONE_NEWIPC OR CLONE_NEWUSER
                                    OR CLONE_NEWPID OR CLONE_NEWNET OR CLONE_NEWCGROUP,
                          ValueTwo = 0, Op = OpMaskedEqual\<rparr>]\<rparr>
            else
              append_syscall s
                \<lparr>Names = [''clone''], Action = ActAllow, ErrnoRet = None,
                 Args = [\<lparr>Index = 0,
                          Value = CLONE_NEWNS OR CLONE_NEWUTS OR CLONE_NEWIPC OR CLONE_NEWUSER
                                    OR CLONE_NEWPID OR CLONE_NEWNET OR CLONE_NEWCGROUP,
                          ValueTwo = 0, Op = OpMaskedEqual\<rparr>]\<rparr>)
         in append_syscall s1
              \<lparr>Names = [''clone3''], Action = ActErrno, ErrnoRet = Some nosys, Args = []\<rparr>)
      else s)"

text \<open>
  \<^verbatim>\<open>DefaultProfile(sp)\<close>, lines 56-748. The oracle is called before the
  specification is read; \<^verbatim>\<open>sp.Process.Capabilities.Bounding\<close> on line 566
  dereferences \<^verbatim>\<open>sp\<close>, \<^verbatim>\<open>sp.Process\<close> and
  \<^verbatim>\<open>sp.Process.Capabilities\<close>, and panics when one of them is nil.
\<close>

definition DefaultProfile ::
    "string \<Rightarrow> version_oracle \<Rightarrow> Spec option \<Rightarrow> panic + LinuxSeccomp" where
  "DefaultProfile GOARCH GreaterEqualThan sp =
     (let nosys = ENOSYS GOARCH;
          s0 = \<lparr>DefaultAction = ActErrno, Architectures = arches GOARCH, Syscalls = syscalls\<rparr>;
          s1 = include_by_kernel_version GreaterEqualThan s0;
          s2 = include_by_arch GOARCH s1
      in case sp of
           None \<Rightarrow> Inl NilPointerDereference
         | Some spec \<Rightarrow>
             (case Process spec of
                None \<Rightarrow> Inl NilPointerDereference
              | Some process \<Rightarrow>
                  (case Capabilities process of
                     None \<Rightarrow> Inl NilPointerDereference
                   | Some caps \<Rightarrow>
                       (case capability_loop (Bounding caps) (False, s2) of
                          (admin, s3) \<Rightarrow> Inr (clone_restrictions GOARCH nosys admin s3)))))"

section \<open>Auxiliary notions for the statements\<close>

text \<open>
  The rules a stage appends: the stage run on a profile without rules. Every stage
  only appends, so the profile after the stage is the profile before it followed by
  these rules (lemmas \<open>include_by_kernel_version_eq\<close>, \<open>include_by_arch_eq\<close>,
  \<open>capability_case_eq\<close>, \<open>clone_restrictions_eq\<close>).
\<close>

definition added_by :: "(LinuxSeccomp \<Rightarrow> LinuxSeccomp) \<Rightarrow> LinuxSyscall list" where
  "added_by f = Syscalls (f \<lparr>DefaultAction = ActErrno, Architectures = [], Syscalls = []\<rparr>)"

text \<open>The rules one pass of the capability switch appends for the token \<open>c\<close>.\<close>

definition capability_rules :: "string \<Rightarrow> LinuxSyscall list" where
  "capability_rules c = added_by (\<lambda>s. snd (capability_case c (False, s)))"

text \<open>
  The value of \<^verbatim>\<open>sp.Process.Capabilities.Bounding\<close>: \<open>None\<close> when one of the
  three pointers on the way is nil.
\<close>

definition bounding_set :: "Spec option \<Rightarrow> string list option" where
  "bounding_set sp =
     (case sp of
        None \<Rightarrow> None
      | Some spec \<Rightarrow>
          (case Process spec of
             None \<Rightarrow> None
           | Some process \<Rightarrow> map_option Bounding (Capabilities process)))"

text \<open>A specification whose only content is its bounding set, and an oracle with a fixed answer.\<close>

definition spec_with_bounding :: "string list \<Rightarrow> Spec option" where
  "spec_with_bounding b =
     Some \<lparr>Process = Some \<lparr>Capabilities =
       Some \<lparr>Bounding = b, Effective = [], Inheritable = [], Permitted = [], Ambient = []\<rparr>\<rparr>\<rparr>"

definition fixed_oracle :: "bool \<times> go_error option \<Rightarrow> version_oracle" where
  "fixed_oracle answer v = answer"

text \<open>
  The capability table as the specification words it (section 4.4), one row per
  capability in the order of the specification, to be compared with the switch of the
  source.
\<close>

definition spec_capability_table :: "(string \<times> string list) list" where
  "spec_capability_table = [
     (''CAP_DAC_READ_SEARCH'', [''open_by_handle_at'']),
     (''CAP_SYS_ADMIN'',
        [''bpf'', ''clone'', ''clone3'', ''fsopen'', ''fsconfig'', ''fsmount'', ''fspick'',
         ''mount'', ''mount_setattr'', ''move_mount'', ''open_tree'', ''umount'', ''umount2'',
         ''fanotify_init'', ''lookup_dcookie'', ''perf_event_open'', ''quotactl'',
         ''quotactl_fd'', ''setdomainname'', ''sethostname'', ''setns'', ''syslog'',
         ''unshare'']),
     (''CAP_SYS_BOOT'', [''reboot'']),
     (''CAP_SYS_CHROOT'', [''chroot'']),
     (''CAP_SYS_MODULE'', [''init_module'', ''finit_module'', ''delete_module'']),
     (''CAP_SYS_PACCT'', [''acct'']),
     (''CAP_SYS_PTRACE'',
        [''ptrace'', ''process_vm_readv'', ''process_vm_writev'', ''process_madvise'',
         ''pidfd_getfd'', ''kcmp'']),
     (''CAP_SYS_RAWIO'', [''iopl'', ''ioperm'']),
     (''CAP_SYS_TIME'', [''settimeofday'', ''stime'', ''clock_settime'', ''clock_settime64'']),
     (''CAP_SYS_TTY_CONFIG'', [''vhangup'']),
     (''CAP_SYS_NICE'', [''get_mempolicy'', ''set_mempolicy'', ''mbind'']),
     (''CAP_SYSLOG'', [''syslog'']),
     (''CAP_BPF'', [''bpf'']),
     (''CAP_PERFMON'', [''perf_event_open''])
   ]"

text \<open>
  Modelled from the spec: the filter that evaluates a profile is outside this
  repository (libseccomp and the kernel). Section 3 of the specification gives the
  reading used here: a condition compares the argument at its index with its value
  (a masked test compares the argument under the mask \<open>Value\<close> with \<open>ValueTwo\<close>),
  the conditions of a rule are conjoined, and a rule applies to a call of one of its
  names whose arguments meet every condition. \<open>a i\<close> is the argument at position \<open>i\<close>.
\<close>

definition arg_holds :: "(nat \<Rightarrow> 64 word) \<Rightarrow> LinuxSeccompArg \<Rightarrow> bool" where
  "arg_holds a c =
     (case Op c of
        OpNotEqual \<Rightarrow> a (Index c) \<noteq> Value c
      | OpLessThan \<Rightarrow> a (Index c) < Value c
      | OpLessEqual \<Rightarrow> a (Index c) \<le> Value c
      | OpEqualTo \<Rightarrow> a (Index c) = Value c
      | OpGreaterEqual \<Rightarrow> a (Index c) \<ge> Value c
      | OpGreaterThan \<Rightarrow> a (Index c) > Value c
      | OpMaskedEqual \<Rightarrow> (a (Index c) AND Value c) = ValueTwo c)"

definition rule_applies :: "string \<Rightarrow> (nat \<Rightarrow> 64 word) \<Rightarrow> LinuxSyscall \<Rightarrow> bool" where
  "rule_applies name a r = (name \<in> set (Names r) \<and> list_all (arg_holds a) (Args r))"

section \<open>Every stage appends\<close>

lemma include_by_kernel_version_eq:
  "include_by_kernel_version probe s =
     s\<lparr>Syscalls := Syscalls s @ added_by (include_by_kernel_version probe)\<rparr>"
  by (simp add: include_by_kernel_version_def added_by_def append_syscall_def split: prod.splits)

lemma include_by_arch_eq:
  "include_by_arch g s = s\<lparr>Syscalls := Syscalls s @ added_by (include_by_arch g)\<rparr>"
  by (simp add: include_by_arch_def added_by_def append_syscall_def)

lemma capability_case_eq:
  "capability_case c (admin, s) =
     (admin \<or> c = ''CAP_SYS_ADMIN'', s\<lparr>Syscalls := Syscalls s @ capability_rules c\<rparr>)"
  by (simp add: capability_case_def capability_rules_def added_by_def append_syscall_def)

lemma capability_loop_eq:
  "capability_loop cs (admin, s) =
     (admin \<or> ''CAP_SYS_ADMIN'' \<in> set cs,
      s\<lparr>Syscalls := Syscalls s @ concat (map capability_rules cs)\<rparr>)"
proof (induction cs arbitrary: admin s)
  case Nil
  show ?case by simp
next
  case (Cons c cs)
  show ?case
    by (simp only: capability_loop.simps capability_case_eq Cons.IH) auto
qed

lemma clone_restrictions_eq:
  "clone_restrictions g n admin s =
     s\<lparr>Syscalls := Syscalls s @ added_by (clone_restrictions g n admin)\<rparr>"
  by (simp add: clone_restrictions_def added_by_def append_syscall_def Let_def)

lemma DefaultProfile_eq:
  "DefaultProfile g probe sp =
     (case bounding_set sp of
        None \<Rightarrow> Inl NilPointerDereference
      | Some b \<Rightarrow>
          Inr \<lparr>DefaultAction = ActErrno, Architectures = arches g,
               Syscalls = syscalls @ added_by (include_by_kernel_version probe)
                 @ added_by (include_by_arch g) @ concat (map capability_rules b)
                 @ added_by (clone_restrictions g (ENOSYS g) (''CAP_SYS_ADMIN'' \<in> set b))\<rparr>)"
  unfolding DefaultProfile_def Let_def bounding_set_def
  by (subst include_by_kernel_version_eq, subst include_by_arch_eq,
      simp add: capability_loop_eq split: option.splits, subst clone_restrictions_eq, simp)

section \<open>What each stage appends\<close>

lemma baseline_names_avoid:
  "''personality'' \<notin> set baseline_names"
  "''socket'' \<notin> set baseline_names"
  "''clone'' \<notin> set baseline_names"
  "''clone3'' \<notin> set baseline_names"
  "''ptrace'' \<notin> set baseline_names"
  by (simp_all add: baseline_names_def)

lemma added_by_kernel_version:
  "added_by (include_by_kernel_version probe) =
     (if probe \<lparr>Kernel = 4, Major = 8\<rparr> = (True, None)
      then [allow_rule [''process_vm_readv'', ''process_vm_writev'', ''ptrace'']] else [])"
  by (auto simp add: include_by_kernel_version_def added_by_def append_syscall_def
      split: prod.splits)

lemma arch_rules_shape:
  assumes "r \<in> set (added_by (include_by_arch g))"
  shows "Action r = ActAllow" and "ErrnoRet r = None" and "Args r = []"
    and "''personality'' \<notin> set (Names r)" and "''socket'' \<notin> set (Names r)"
    and "''ptrace'' \<notin> set (Names r)" and "''clone'' \<notin> set (Names r)"
    and "''clone3'' \<notin> set (Names r)"
  using assms
  by (auto simp add: include_by_arch_def added_by_def append_syscall_def allow_rule_def
      split: if_splits)

lemma capability_rules_shape:
  assumes "r \<in> set (capability_rules c)"
  shows "Action r = ActAllow" and "ErrnoRet r = None" and "Args r = []"
    and "''personality'' \<notin> set (Names r)" and "''socket'' \<notin> set (Names r)"
    and "''ptrace'' \<in> set (Names r) \<Longrightarrow> ''kcmp'' \<in> set (Names r)"
    and "c \<noteq> ''CAP_SYS_ADMIN'' \<Longrightarrow> ''clone'' \<notin> set (Names r)"
    and "c \<noteq> ''CAP_SYS_ADMIN'' \<Longrightarrow> ''clone3'' \<notin> set (Names r)"
  using assms
  by (auto simp add: capability_rules_def capability_case_def added_by_def append_syscall_def
      allow_rule_def split: if_splits)

lemma added_by_clone_restrictions:
  "added_by (clone_restrictions g n admin) =
     (if admin then []
      else [\<lparr>Names = [''clone''], Action = ActAllow, ErrnoRet = None,
             Args = [\<lparr>Index = (if g = ''s390'' \<or> g = ''s390x'' then 1 else 0),
                      Value = CLONE_NEWNS OR CLONE_NEWUTS OR CLONE_NEWIPC OR CLONE_NEWUSER
                                OR CLONE_NEWPID OR CLONE_NEWNET OR CLONE_NEWCGROUP,
                      ValueTwo = 0, Op = OpMaskedEqual\<rparr>]\<rparr>,
            \<lparr>Names = [''clone3''], Action = ActErrno, ErrnoRet = Some n, Args = []\<rparr>])"
  by (simp add: clone_restrictions_def added_by_def append_syscall_def Let_def)

section \<open>The profile of a specification with a bounding set\<close>

lemma DefaultProfile_Inr:
  assumes "bounding_set sp = Some b"
  shows "DefaultProfile g probe sp =
     Inr \<lparr>DefaultAction = ActErrno, Architectures = arches g,
          Syscalls = syscalls @ added_by (include_by_kernel_version probe)
            @ added_by (include_by_arch g) @ concat (map capability_rules b)
            @ added_by (clone_restrictions g (ENOSYS g) (''CAP_SYS_ADMIN'' \<in> set b))\<rparr>"
  using assms by (simp add: DefaultProfile_eq)

lemma DefaultProfile_cases:
  assumes "bounding_set sp = Some b"
  obtains p where "DefaultProfile g probe sp = Inr p"
    and "DefaultAction p = ActErrno"
    and "Architectures p = arches g"
    and "Syscalls p = syscalls @ added_by (include_by_kernel_version probe)
           @ added_by (include_by_arch g) @ concat (map capability_rules b)
           @ added_by (clone_restrictions g (ENOSYS g) (''CAP_SYS_ADMIN'' \<in> set b))"
proof -
  let ?p = "\<lparr>DefaultAction = ActErrno, Architectures = arches g,
          Syscalls = syscalls @ added_by (include_by_kernel_version probe)
            @ added_by (include_by_arch g) @ concat (map capability_rules b)
            @ added_by (clone_restrictions g (ENOSYS g) (''CAP_SYS_ADMIN'' \<in> set b))\<rparr>"
  have "DefaultProfile g probe sp = Inr ?p"
    by (rule DefaultProfile_Inr [OF assms])
  then show thesis
    by (rule that) simp_all
qed

lemma bounding_set_spec_with_bounding:
  "bounding_set (spec_with_bounding b) = Some b"
  by (simp add: bounding_set_def spec_with_bounding_def)

lemma filter_capability_rules_empty:
  assumes "\<And>c r. c \<in> set b \<Longrightarrow> r \<in> set (capability_rules c) \<Longrightarrow> \<not> P r"
  shows "filter P (concat (map capability_rules b)) = []"
  using assms by (auto simp add: filter_empty_conv)

lemma filter_arch_rules_empty:
  assumes "\<And>r. r \<in> set (added_by (include_by_arch g)) \<Longrightarrow> \<not> P r"
  shows "filter P (added_by (include_by_arch g)) = []"
  using assms by (auto simp add: filter_empty_conv)

section \<open>The architecture table (C4)\<close>

text \<open>
  C4: \<open>arches\<close> returns, for each of the eight architectures of its table, the
  non-empty list of ABI variants the source gives (amd64 gives x86_64, x86 and x32),
  and it returns the empty list, not a failure, exactly for the strings outside the
  table.
\<close>

theorem arches_table:
  "arches ''amd64'' = [ArchX86_64, ArchX86, ArchX32] \<and>
   arches ''arm64'' = [ArchARM, ArchAARCH64] \<and>
   arches ''mips64'' = [ArchMIPS, ArchMIPS64, ArchMIPS64N32] \<and>
   arches ''mips64n32'' = [ArchMIPS, ArchMIPS64, ArchMIPS64N32] \<and>
   arches ''mipsel64'' = [ArchMIPSEL, ArchMIPSEL64, ArchMIPSEL64N32] \<and>
   arches ''mipsel64n32'' = [ArchMIPSEL, ArchMIPSEL64, ArchMIPSEL64N32] \<and>
   arches ''s390x'' = [ArchS390, ArchS390X] \<and>
   arches ''riscv64'' = [ArchRISCV64] \<and>
   (arches g = []) =
     (g \<notin> set [''amd64'', ''arm64'', ''mips64'', ''mips64n32'', ''mipsel64'', ''mipsel64n32'',
                ''s390x'', ''riscv64''])"
  by (simp add: arches_def)

section \<open>The clone and clone3 restrictions (C1, C2, C10)\<close>

text \<open>
  C1: when the bounding set lacks \<^verbatim>\<open>CAP_SYS_ADMIN\<close>, the profile has exactly
  one rule naming clone: an Allow rule with the single condition MaskedEqual, mask the
  disjunction of the seven namespace flags, \<open>ValueTwo\<close> 0, on argument 1 for s390 and
  s390x and on argument 0 for every other architecture; it is appended just before the
  clone3 rule that ends the profile. When \<^verbatim>\<open>CAP_SYS_ADMIN\<close> is in the bounding
  set, no rule naming clone carries a condition.
\<close>

theorem clone_rule_masks_namespaces:
  assumes "bounding_set sp = Some b"
  shows "\<exists>p. DefaultProfile g probe sp = Inr p \<and>
     (let R = \<lparr>Names = [''clone''], Action = ActAllow, ErrnoRet = None,
               Args = [\<lparr>Index = (if g = ''s390'' \<or> g = ''s390x'' then 1 else 0),
                        Value = CLONE_NEWNS OR CLONE_NEWUTS OR CLONE_NEWIPC OR CLONE_NEWUSER
                                  OR CLONE_NEWPID OR CLONE_NEWNET OR CLONE_NEWCGROUP,
                        ValueTwo = 0, Op = OpMaskedEqual\<rparr>]\<rparr>
      in if ''CAP_SYS_ADMIN'' \<in> set b
         then filter (\<lambda>r. ''clone'' \<in> set (Names r) \<and> Args r \<noteq> []) (Syscalls p) = []
         else filter (\<lambda>r. ''clone'' \<in> set (Names r)) (Syscalls p) = [R] \<and>
              last (butlast (Syscalls p)) = R)"
proof -
  obtain p where p: "DefaultProfile g probe sp = Inr p"
    and sys: "Syscalls p = syscalls @ added_by (include_by_kernel_version probe)
           @ added_by (include_by_arch g) @ concat (map capability_rules b)
           @ added_by (clone_restrictions g (ENOSYS g) (''CAP_SYS_ADMIN'' \<in> set b))"
    by (rule DefaultProfile_cases [OF assms])
  let ?P = "\<lambda>r. ''clone'' \<in> set (Names r) \<and> Args r \<noteq> []"
  let ?Q = "\<lambda>r::LinuxSyscall. ''clone'' \<in> set (Names r)"
  let ?R = "\<lparr>Names = [''clone''], Action = ActAllow, ErrnoRet = None,
               Args = [\<lparr>Index = (if g = ''s390'' \<or> g = ''s390x'' then 1 else 0),
                        Value = CLONE_NEWNS OR CLONE_NEWUTS OR CLONE_NEWIPC OR CLONE_NEWUSER
                                  OR CLONE_NEWPID OR CLONE_NEWNET OR CLONE_NEWCGROUP,
                        ValueTwo = 0, Op = OpMaskedEqual\<rparr>]\<rparr>"
  have base: "filter ?P syscalls = []" "filter ?Q syscalls = []"
    by (simp_all add: syscalls_def allow_rule_def baseline_names_avoid)
  have kv: "filter ?P (added_by (include_by_kernel_version probe)) = []"
    "filter ?Q (added_by (include_by_kernel_version probe)) = []"
    by (simp_all add: added_by_kernel_version allow_rule_def)
  have arch: "filter ?P (added_by (include_by_arch g)) = []"
    "filter ?Q (added_by (include_by_arch g)) = []"
    by (rule filter_arch_rules_empty, simp add: arch_rules_shape)+
  have caps: "filter ?P (concat (map capability_rules b)) = []"
    by (rule filter_capability_rules_empty) (simp add: capability_rules_shape)
  have with_admin: "filter ?P (Syscalls p) = []" if "''CAP_SYS_ADMIN'' \<in> set b"
    unfolding sys filter_append base kv arch caps
    by (simp add: that added_by_clone_restrictions)
  have without_admin: "filter ?Q (Syscalls p) = [?R]" "last (butlast (Syscalls p)) = ?R"
    if absent: "''CAP_SYS_ADMIN'' \<notin> set b"
  proof -
    have capsQ: "filter ?Q (concat (map capability_rules b)) = []"
      by (rule filter_capability_rules_empty) (use absent capability_rules_shape(7) in blast)
    show "filter ?Q (Syscalls p) = [?R]"
      unfolding sys filter_append base kv arch capsQ
      by (simp add: absent added_by_clone_restrictions)
    show "last (butlast (Syscalls p)) = ?R"
      unfolding sys by (simp add: absent added_by_clone_restrictions butlast_append)
  qed
  show ?thesis
    unfolding Let_def using p with_admin without_admin by (intro exI [of _ p]) simp
qed

theorem clone_rule_masks_namespaces_witness:
  "bounding_set (spec_with_bounding [''CAP_CHOWN'', ''CAP_SYS_CHROOT'']) =
     Some [''CAP_CHOWN'', ''CAP_SYS_CHROOT''] \<and>
   (\<exists>p. DefaultProfile ''s390x'' (fixed_oracle (False, None))
          (spec_with_bounding [''CAP_CHOWN'', ''CAP_SYS_CHROOT'']) = Inr p \<and>
        filter (\<lambda>r. ''clone'' \<in> set (Names r)) (Syscalls p) =
          [\<lparr>Names = [''clone''], Action = ActAllow, ErrnoRet = None,
            Args = [\<lparr>Index = 1, Value = 0x7E020000, ValueTwo = 0, Op = OpMaskedEqual\<rparr>]\<rparr>])"
proof -
  have h: "bounding_set (spec_with_bounding [''CAP_CHOWN'', ''CAP_SYS_CHROOT'']) =
     Some [''CAP_CHOWN'', ''CAP_SYS_CHROOT'']"
    by (rule bounding_set_spec_with_bounding)
  have mask: "CLONE_NEWNS OR CLONE_NEWUTS OR CLONE_NEWIPC OR CLONE_NEWUSER
      OR CLONE_NEWPID OR CLONE_NEWNET OR CLONE_NEWCGROUP = 0x7E020000"
    by (simp add: CLONE_NEWNS_def CLONE_NEWUTS_def CLONE_NEWIPC_def CLONE_NEWUSER_def
        CLONE_NEWPID_def CLONE_NEWNET_def CLONE_NEWCGROUP_def)
  show ?thesis
    using h clone_rule_masks_namespaces [OF h, of "''s390x''" "fixed_oracle (False, None)"]
    by (auto simp add: Let_def mask)
qed

text \<open>
  C2: when the bounding set lacks \<^verbatim>\<open>CAP_SYS_ADMIN\<close>, the profile ends with a
  rule for clone3 whose action is errno with return code \<^verbatim>\<open>ENOSYS\<close> and which
  has no argument condition, and no other rule names clone3. When
  \<^verbatim>\<open>CAP_SYS_ADMIN\<close> is in the bounding set, no rule naming clone3 has the errno
  action.
\<close>

theorem clone3_rule_returns_enosys:
  assumes "bounding_set sp = Some b"
  shows "\<exists>p. DefaultProfile g probe sp = Inr p \<and>
     (let R = \<lparr>Names = [''clone3''], Action = ActErrno, ErrnoRet = Some (ENOSYS g),
               Args = []\<rparr>
      in if ''CAP_SYS_ADMIN'' \<in> set b
         then filter (\<lambda>r. ''clone3'' \<in> set (Names r) \<and> Action r = ActErrno) (Syscalls p) = []
         else filter (\<lambda>r. ''clone3'' \<in> set (Names r)) (Syscalls p) = [R] \<and>
              last (Syscalls p) = R)"
proof -
  obtain p where p: "DefaultProfile g probe sp = Inr p"
    and sys: "Syscalls p = syscalls @ added_by (include_by_kernel_version probe)
           @ added_by (include_by_arch g) @ concat (map capability_rules b)
           @ added_by (clone_restrictions g (ENOSYS g) (''CAP_SYS_ADMIN'' \<in> set b))"
    by (rule DefaultProfile_cases [OF assms])
  let ?P = "\<lambda>r. ''clone3'' \<in> set (Names r) \<and> Action r = ActErrno"
  let ?Q = "\<lambda>r::LinuxSyscall. ''clone3'' \<in> set (Names r)"
  let ?R = "\<lparr>Names = [''clone3''], Action = ActErrno, ErrnoRet = Some (ENOSYS g),
               Args = []\<rparr>"
  have base: "filter ?P syscalls = []" "filter ?Q syscalls = []"
    by (simp_all add: syscalls_def allow_rule_def baseline_names_avoid)
  have kv: "filter ?P (added_by (include_by_kernel_version probe)) = []"
    "filter ?Q (added_by (include_by_kernel_version probe)) = []"
    by (simp_all add: added_by_kernel_version allow_rule_def)
  have arch: "filter ?P (added_by (include_by_arch g)) = []"
    "filter ?Q (added_by (include_by_arch g)) = []"
    by (rule filter_arch_rules_empty, simp add: arch_rules_shape)+
  have caps: "filter ?P (concat (map capability_rules b)) = []"
    by (rule filter_capability_rules_empty) (simp add: capability_rules_shape)
  have with_admin: "filter ?P (Syscalls p) = []" if "''CAP_SYS_ADMIN'' \<in> set b"
    unfolding sys filter_append base kv arch caps
    by (simp add: that added_by_clone_restrictions)
  have without_admin: "filter ?Q (Syscalls p) = [?R]" "last (Syscalls p) = ?R"
    if absent: "''CAP_SYS_ADMIN'' \<notin> set b"
  proof -
    have capsQ: "filter ?Q (concat (map capability_rules b)) = []"
      by (rule filter_capability_rules_empty) (use absent capability_rules_shape(8) in blast)
    show "filter ?Q (Syscalls p) = [?R]"
      unfolding sys filter_append base kv arch capsQ
      by (simp add: absent added_by_clone_restrictions)
    show "last (Syscalls p) = ?R"
      unfolding sys by (simp add: absent added_by_clone_restrictions)
  qed
  show ?thesis
    unfolding Let_def using p with_admin without_admin by (intro exI [of _ p]) simp
qed

theorem clone3_rule_returns_enosys_witness:
  "bounding_set (spec_with_bounding [''CAP_NET_RAW'']) = Some [''CAP_NET_RAW''] \<and>
   (\<exists>p. DefaultProfile ''amd64'' (fixed_oracle (True, None))
          (spec_with_bounding [''CAP_NET_RAW'']) = Inr p \<and>
        last (Syscalls p) =
          \<lparr>Names = [''clone3''], Action = ActErrno, ErrnoRet = Some 38, Args = []\<rparr>)"
proof -
  have h: "bounding_set (spec_with_bounding [''CAP_NET_RAW'']) = Some [''CAP_NET_RAW'']"
    by (rule bounding_set_spec_with_bounding)
  show ?thesis
    using h clone3_rule_returns_enosys [OF h, of "''amd64''" "fixed_oracle (True, None)"]
    by (auto simp add: Let_def ENOSYS_def)
qed

text \<open>
  C10: the default action of the returned profile is errno, and the rules whose action
  is not Allow are: none when \<^verbatim>\<open>CAP_SYS_ADMIN\<close> is in the bounding set, and
  otherwise the clone3 rule alone, with action errno and return code
  \<^verbatim>\<open>ENOSYS\<close>; so at most one rule denies.
\<close>

theorem only_clone3_rule_denies:
  assumes "bounding_set sp = Some b"
  shows "\<exists>p. DefaultProfile g probe sp = Inr p \<and>
     DefaultAction p = ActErrno \<and>
     filter (\<lambda>r. Action r \<noteq> ActAllow) (Syscalls p) =
       (if ''CAP_SYS_ADMIN'' \<in> set b then []
        else [\<lparr>Names = [''clone3''], Action = ActErrno, ErrnoRet = Some (ENOSYS g),
               Args = []\<rparr>]) \<and>
     length (filter (\<lambda>r. Action r \<noteq> ActAllow) (Syscalls p)) \<le> 1"
proof -
  obtain p where p: "DefaultProfile g probe sp = Inr p"
    and act: "DefaultAction p = ActErrno"
    and sys: "Syscalls p = syscalls @ added_by (include_by_kernel_version probe)
           @ added_by (include_by_arch g) @ concat (map capability_rules b)
           @ added_by (clone_restrictions g (ENOSYS g) (''CAP_SYS_ADMIN'' \<in> set b))"
    by (rule DefaultProfile_cases [OF assms])
  let ?P = "\<lambda>r. Action r \<noteq> ActAllow"
  have base: "filter ?P syscalls = []"
    by (simp add: syscalls_def allow_rule_def)
  have kv: "filter ?P (added_by (include_by_kernel_version probe)) = []"
    by (simp add: added_by_kernel_version allow_rule_def)
  have arch: "filter ?P (added_by (include_by_arch g)) = []"
    by (rule filter_arch_rules_empty) (simp add: arch_rules_shape)
  have caps: "filter ?P (concat (map capability_rules b)) = []"
    by (rule filter_capability_rules_empty) (simp add: capability_rules_shape)
  have deny: "filter ?P (Syscalls p) =
       (if ''CAP_SYS_ADMIN'' \<in> set b then []
        else [\<lparr>Names = [''clone3''], Action = ActErrno, ErrnoRet = Some (ENOSYS g),
               Args = []\<rparr>])"
    unfolding sys filter_append base kv arch caps
    by (simp add: added_by_clone_restrictions)
  show ?thesis
    using p act deny by (intro exI [of _ p]) simp
qed

theorem only_clone3_rule_denies_witness:
  "bounding_set (spec_with_bounding [''CAP_SYS_ADMIN'', ''CAP_SYS_PTRACE''])
     = Some [''CAP_SYS_ADMIN'', ''CAP_SYS_PTRACE''] \<and>
   (\<exists>p. DefaultProfile ''arm64'' (fixed_oracle (True, None))
          (spec_with_bounding [''CAP_SYS_ADMIN'', ''CAP_SYS_PTRACE'']) = Inr p \<and>
        DefaultAction p = ActErrno \<and>
        filter (\<lambda>r. Action r \<noteq> ActAllow) (Syscalls p) = [])"
proof -
  have h: "bounding_set (spec_with_bounding [''CAP_SYS_ADMIN'', ''CAP_SYS_PTRACE''])
     = Some [''CAP_SYS_ADMIN'', ''CAP_SYS_PTRACE'']"
    by (rule bounding_set_spec_with_bounding)
  show ?thesis
    using h only_clone3_rule_denies [OF h, of "''arm64''" "fixed_oracle (True, None)"]
    by auto
qed

section \<open>Nil pointers (C9)\<close>

text \<open>
  C9, as the source has it: \<open>DefaultProfile\<close> returns a profile exactly when the
  specification, its process and the capabilities of the process are all present, for
  every oracle and every architecture; a nil pointer among the three makes line 566
  panic.
\<close>

theorem DefaultProfile_returns_iff:
  "(\<exists>p. DefaultProfile g probe sp = Inr p) =
   (\<exists>spec process caps.
      sp = Some spec \<and> Process spec = Some process \<and> Capabilities process = Some caps)"
  by (auto simp add: DefaultProfile_eq bounding_set_def split: option.splits)

text \<open>A specification without a process: the call panics instead of returning.\<close>

theorem DefaultProfile_nil_process_panics:
  "DefaultProfile ''amd64'' (fixed_oracle (True, None)) (Some \<lparr>Process = None\<rparr>)
     = Inl NilPointerDereference"
  by (simp add: DefaultProfile_eq bounding_set_def)

end
